theory Spec2Isabelle
  imports Complex_Main "HOL-Library.AList" "HOL-Library.Char_ord" "HOL-Library.List_Lexorder"
begin

section \<open>Values exchanged with the store and the caller\<close>

text \<open>
  The server (\<^verbatim>\<open>src/server.js\<close>) keeps three tables in SQLite and answers two requests:
  \<^verbatim>\<open>POST /api/analyze\<close> records one analysis, \<^verbatim>\<open>GET /api/analytics\<close> aggregates the
  tables into one snapshot. JSON values are a datatype; numbers are integers, as the match
  score of the data model is.
\<close>

datatype json =
    JNull
  | JBool bool
  | JNum int
  | JStr string
  | JArr "json list"
  | JObj "(string \<times> json) list"

text \<open>
  An object literal whose property value is \<^verbatim>\<open>undefined\<close> loses that property when
  \<^verbatim>\<open>res.json\<close> serialises it; \<open>None\<close> stands for \<^verbatim>\<open>undefined\<close>.
\<close>

fun defined_props :: "(string \<times> json option) list \<Rightarrow> (string \<times> json) list" where
  "defined_props [] = []"
| "defined_props ((k, None) # ps) = defined_props ps"
| "defined_props ((k, Some v) # ps) = (k, v) # defined_props ps"

definition object :: "(string \<times> json option) list \<Rightarrow> json" where
  "object ps = JObj (defined_props ps)"

text \<open>Reading a property of a serialised object (\<open>None\<close>: the property is absent).\<close>

fun field :: "json \<Rightarrow> string \<Rightarrow> json option" where
  "field (JObj ps) k = map_of ps k"
| "field _ k = None"

fun elements :: "json \<Rightarrow> json list" where
  "elements (JArr xs) = xs"
| "elements _ = []"

text \<open>
  A row returned by better-sqlite3 is an object whose property names are the column names
  of the query and whose values are SQL values.
\<close>

datatype sql_value = SqlNull | SqlInt int | SqlText string

type_synonym sql_row = "(string \<times> sql_value) list"

definition property :: "sql_row \<Rightarrow> string \<Rightarrow> sql_value option" where
  "property r k = map_of r k"

fun json_of_sql :: "sql_value \<Rightarrow> json" where
  "json_of_sql SqlNull = JNull"
| "json_of_sql (SqlInt n) = JNum n"
| "json_of_sql (SqlText s) = JStr s"

text \<open>Decimal notation of a number, as a template literal prints it.\<close>

fun digits :: "nat \<Rightarrow> string" where
  "digits n = (if n < 10 then [char_of (48 + n)] else digits (n div 10) @ [char_of (48 + n mod 10)])"

definition show_int :: "int \<Rightarrow> string" where
  "show_int i = (if i < 0 then CHR ''-'' # digits (nat (- i)) else digits (nat i))"

text \<open>\<^verbatim>\<open>`${v}`\<close> for a property that may be absent.\<close>

fun template :: "sql_value option \<Rightarrow> string" where
  "template None = ''undefined''"
| "template (Some SqlNull) = ''null''"
| "template (Some (SqlInt n)) = show_int n"
| "template (Some (SqlText s)) = s"

text \<open>
  \<^verbatim>\<open>v > k\<close> for a property that may be absent: \<^verbatim>\<open>undefined\<close> converts to NaN, which
  compares false; \<^verbatim>\<open>null\<close> converts to 0. A text value would be converted by ToNumber,
  which is not modelled: the compared columns are \<^verbatim>\<open>SUM(...)\<close> over integer columns
  and are never text.
\<close>

fun js_gt :: "sql_value option \<Rightarrow> int \<Rightarrow> bool" where
  "js_gt (Some (SqlInt n)) k = (n > k)"
| "js_gt (Some SqlNull) k = (0 > k)"
| "js_gt (Some (SqlText s)) k = False"
| "js_gt None k = False"

text \<open>\<^verbatim>\<open>x || d\<close> on an optional string: absent and empty strings are falsy.\<close>

fun or_default :: "string option \<Rightarrow> string \<Rightarrow> string" where
  "or_default None d = d"
| "or_default (Some s) d = (if s = [] then d else s)"

text \<open>Truthiness of a JSON value (\<^verbatim>\<open>x || []\<close>, \<^verbatim>\<open>if (priority.critical)\<close>).\<close>

fun truthy :: "json \<Rightarrow> bool" where
  "truthy JNull = False"
| "truthy (JBool b) = b"
| "truthy (JNum n) = (n \<noteq> 0)"
| "truthy (JStr s) = (s \<noteq> [])"
| "truthy (JArr xs) = True"
| "truthy (JObj ps) = True"

definition or_json :: "json option \<Rightarrow> json \<Rightarrow> json" where
  "or_json v d = (case v of None \<Rightarrow> d | Some j \<Rightarrow> if truthy j then j else d)"

text \<open>
  A text column that holds JSON is kept by what \<^verbatim>\<open>JSON.parse\<close> makes of it:
  \<open>NoText\<close> is NULL or the empty string (falsy, so that \<^verbatim>\<open>col || "[]"\<close> takes the
  default), \<open>BadText\<close> is text on which \<^verbatim>\<open>JSON.parse\<close> throws, \<open>Text j\<close> is text that
  parses to \<open>j\<close>. \<^verbatim>\<open>JSON.stringify(j)\<close> writes \<open>Text j\<close>.
\<close>

datatype json_text = NoText | BadText | Text json

datatype js_error = SyntaxError | TypeError | SqliteError

fun JSON_parse_or :: "json_text \<Rightarrow> json \<Rightarrow> js_error + json" where
  "JSON_parse_or NoText d = Inr d"
| "JSON_parse_or BadText d = Inl SyntaxError"
| "JSON_parse_or (Text j) d = Inr j"

section \<open>Dates\<close>

text \<open>
  A \<^verbatim>\<open>Date\<close> is read through its local-time getters only; the record holds what they
  return (\<open>getMonth\<close> counts from 0). \<^verbatim>\<open>Date.UTC(y, m, d)\<close> of midnight is kept as its
  day number since 1970-01-01, following the day arithmetic of ECMA-262
  (DayFromYear, MakeDay, WeekDay, YearFromTime).
\<close>

record date =
  getFullYear :: int
  getMonth :: int
  getDate :: int

definition DayFromYear :: "int \<Rightarrow> int" where
  "DayFromYear y = 365 * (y - 1970) + (y - 1969) div 4 - (y - 1901) div 100 + (y - 1601) div 400"

definition InLeapYear :: "int \<Rightarrow> bool" where
  "InLeapYear y =
     (if y mod 4 \<noteq> 0 then False else if y mod 100 \<noteq> 0 then True else y mod 400 = 0)"

definition month_start :: "int \<Rightarrow> bool \<Rightarrow> int" where
  "month_start m leap =
     [0, 31, 59, 90, 120, 151, 181, 212, 243, 273, 304, 334] ! nat m + (if leap \<and> 2 \<le> m then 1 else 0)"

definition MakeDay :: "int \<Rightarrow> int \<Rightarrow> int \<Rightarrow> int" where
  "MakeDay year month dt =
     (let ym = year + month div 12; mn = month mod 12
      in DayFromYear ym + month_start mn (InLeapYear ym) + dt - 1)"

definition Date_UTC :: "int \<Rightarrow> int \<Rightarrow> int \<Rightarrow> int" where
  "Date_UTC year month dt = MakeDay (if 0 \<le> year \<and> year \<le> 99 then 1900 + year else year) month dt"

definition getUTCDay :: "int \<Rightarrow> int" where
  "getUTCDay day = (day + 4) mod 7"

function year_search :: "int \<Rightarrow> int \<Rightarrow> int" where
  "year_search d y = (if DayFromYear (y + 1) \<le> d then year_search d (y + 1) else y)"
  by pat_completeness auto
termination
proof (relation "measure (\<lambda>(d, y). nat (d - DayFromYear (y + 1) + 1))")
  show "wf (measure (\<lambda>(d, y). nat (d - DayFromYear (y + 1) + 1)))" by simp
next
  fix d y :: int
  assume a: "DayFromYear (y + 1) \<le> d"
  have 1: "(y + 1 - 1969) div 4 \<le> (y + 1 + 1 - 1969) div 4" by (rule zdiv_mono1) simp_all
  have 2: "(y + 1 + 1 - 1901) div 100 \<le> (y + 1 - 1901) div 100 + 1" by presburger
  have 3: "(y + 1 - 1601) div 400 \<le> (y + 1 + 1 - 1601) div 400" by (rule zdiv_mono1) simp_all
  have 4: "A \<le> A' \<Longrightarrow> B' \<le> B + 1 \<Longrightarrow> C \<le> C' \<Longrightarrow>
      365 * (y + 1 - 1970) + A - B + C < 365 * (y + 1 + 1 - 1970) + A' - B' + C'"
    for A A' B B' C C' :: int by arith
  have "DayFromYear (y + 1) < DayFromYear (y + 1 + 1)"
    unfolding DayFromYear_def by (rule 4 [OF 1 2 3])
  with a show "((d, y + 1), (d, y)) \<in> measure (\<lambda>(d, y). nat (d - DayFromYear (y + 1) + 1))"
    by simp
qed

text \<open>
  \<^verbatim>\<open>getUTCFullYear\<close>: the largest year whose first day is not after the day, searched
  upwards from a year that is not after it.
\<close>

definition getUTCFullYear :: "int \<Rightarrow> int" where
  "getUTCFullYear d = year_search d (if 0 \<le> d then 1970 + d div 366 else 1970 + d div 365 - 1)"

text \<open>
  \<^verbatim>\<open>getWeekNumber(date)\<close>. \<^verbatim>\<open>d.setUTCDate(d.getUTCDate() + 4 - dayNum)\<close> moves the
  day number by \<open>4 - dayNum\<close>. Both dates are midnights, so \<^verbatim>\<open>(d - yearStart) / 86400000\<close>
  is the difference of the day numbers, and \<^verbatim>\<open>Math.ceil(n / 7)\<close> is \<open>- (- n div 7)\<close>.
\<close>

definition getWeekNumber :: "date \<Rightarrow> int" where
  "getWeekNumber dat =
     (let d = Date_UTC (getFullYear dat) (getMonth dat) (getDate dat);
          dayNum = (if getUTCDay d = 0 then 7 else getUTCDay d);
          d' = d + 4 - dayNum;
          yearStart = Date_UTC (getUTCFullYear d') 0 1
      in - (- (d' - yearStart + 1) div 7))"

section \<open>The persistence store\<close>

text \<open>
  \<^verbatim>\<open>skill_gaps\<close> is a list of rows in insertion order. Its text columns are written by
  one INSERT only, which never writes NULL into them, so they are strings;
  \<^verbatim>\<open>match_percentage\<close> is a number, an integer as in the data model.
  \<^verbatim>\<open>skill_analytics\<close> is UNIQUE on (skill_name, department) and \<^verbatim>\<open>trends\<close> on
  (skill_name, week_number, year): each is an association list from that key to the
  counter, in insertion order. Their \<^verbatim>\<open>id\<close> column only addresses the row that was just
  read by its key, and \<^verbatim>\<open>last_seen\<close> is never read.
\<close>

record skill_gaps_row =
  sg_id :: nat
  sg_user_id :: "nat option"
  sg_student_id :: string
  sg_student_name :: string
  sg_department :: string
  sg_academic_year :: string
  sg_job_role :: string
  sg_company_name :: string
  sg_match_percentage :: int
  sg_missing_skills :: json_text
  sg_matched_skills :: json_text
  sg_skill_priority :: json_text
  sg_recommendations :: json_text
  sg_timestamp :: nat

record db =
  skill_gaps :: "skill_gaps_row list"
  skill_gaps_seq :: nat
  skill_analytics :: "((string \<times> string) \<times> int) list"
  trends :: "((string \<times> int \<times> int) \<times> int) list"

text \<open>
  Any statement may throw (a locked or unwritable file, a dropped table). Which ones do
  is an input of the model: \<open>faults\<close> is the set of failing operations.
\<close>

datatype db_op = InsertSkillGap | UpsertSkillAnalytics string | UpsertTrend string | ReadAnalytics

type_synonym faults = "db_op \<Rightarrow> bool"

section \<open>Ingestion\<close>

text \<open>The \<^verbatim>\<open>data\<close> object handed to \<^verbatim>\<open>storeToDatabase\<close>.\<close>

record submission =
  user_id :: "nat option"
  student_id :: string
  student_name :: "string option"
  department :: "string option"
  academic_year :: "string option"
  job_role :: string
  company_name :: "string option"
  match_percentage :: "int option"
  missing_skills :: "string list"
  matched_skills :: "json option"
  skill_priority :: "json option"
  recommendations :: "json option"

text \<open>
  \<^verbatim>\<open>updateSkillAnalytics\<close>: one upsert per element of the list, each in its own
  \<^verbatim>\<open>try\<close>; a failing one writes a console line and the loop goes on. The functions
  return the store and the console lines they wrote.
\<close>

definition upsert_skill :: "faults \<Rightarrow> string \<Rightarrow> string \<Rightarrow> db \<times> string list \<Rightarrow> db \<times> string list" where
  "upsert_skill flt dept skill st =
     (let (d, out) = st in
      if flt (UpsertSkillAnalytics skill) then (d, out @ [''Error updating skill analytics:''])
      else (case map_of (skill_analytics d) (skill, dept) of
              Some total_missing \<Rightarrow>
                (d\<lparr>skill_analytics := AList.update (skill, dept) (total_missing + 1) (skill_analytics d)\<rparr>, out)
            | None \<Rightarrow>
                (d\<lparr>skill_analytics := skill_analytics d @ [((skill, dept), 1)]\<rparr>, out)))"

definition updateSkillAnalytics :: "faults \<Rightarrow> string list \<Rightarrow> string option \<Rightarrow> db \<times> string list \<Rightarrow> db \<times> string list" where
  "updateSkillAnalytics flt skills dept st = foldl (\<lambda>s skill. upsert_skill flt (or_default dept ''Unknown'') skill s) st skills"

text \<open>
  \<^verbatim>\<open>updateTrends\<close>: the key is the week number of today with \<^verbatim>\<open>now.getFullYear()\<close>.
\<close>

definition upsert_trend :: "faults \<Rightarrow> int \<Rightarrow> int \<Rightarrow> string \<Rightarrow> db \<times> string list \<Rightarrow> db \<times> string list" where
  "upsert_trend flt weekNumber year skill st =
     (let (d, out) = st in
      if flt (UpsertTrend skill) then (d, out @ [''Error updating trends:''])
      else (case map_of (trends d) (skill, weekNumber, year) of
              Some cnt \<Rightarrow>
                (d\<lparr>trends := AList.update (skill, weekNumber, year) (cnt + 1) (trends d)\<rparr>, out)
            | None \<Rightarrow>
                (d\<lparr>trends := trends d @ [((skill, weekNumber, year), 1)]\<rparr>, out)))"

definition updateTrends :: "faults \<Rightarrow> date \<Rightarrow> string list \<Rightarrow> db \<times> string list \<Rightarrow> db \<times> string list" where
  "updateTrends flt now skills st =
     (let weekNumber = getWeekNumber now; year = getFullYear now
      in foldl (\<lambda>s skill. upsert_trend flt weekNumber year skill s) st skills)"

text \<open>
  The INSERT of \<^verbatim>\<open>storeToDatabase\<close>. The statement throws when the store fails, and
  when \<^verbatim>\<open>match_percentage\<close> is null (the column is NOT NULL; \<^verbatim>\<open>student_id\<close> and
  \<^verbatim>\<open>job_role\<close> are always strings). \<^verbatim>\<open>data.user_id || null\<close> turns 0 into null.
  The timestamp is CURRENT_TIMESTAMP, an input.
\<close>

definition insert_skill_gap :: "faults \<Rightarrow> nat \<Rightarrow> db \<Rightarrow> submission \<Rightarrow> js_error + db" where
  "insert_skill_gap flt ts d data =
     (if flt InsertSkillGap then Inl SqliteError
      else (case match_percentage data of
              None \<Rightarrow> Inl SqliteError
            | Some mp \<Rightarrow>
                Inr (d\<lparr>skill_gaps := skill_gaps d @
                       [\<lparr>sg_id = skill_gaps_seq d + 1,
                         sg_user_id = (if user_id data = Some 0 then None else user_id data),
                         sg_student_id = student_id data,
                         sg_student_name = or_default (student_name data) ''Anonymous'',
                         sg_department = or_default (department data) ''Unknown'',
                         sg_academic_year = or_default (academic_year data) ''Not Specified'',
                         sg_job_role = job_role data,
                         sg_company_name = or_default (company_name data) ''Unknown'',
                         sg_match_percentage = mp,
                         sg_missing_skills = Text (JArr (map JStr (missing_skills data))),
                         sg_matched_skills = Text (or_json (matched_skills data) (JArr [])),
                         sg_skill_priority = Text (or_json (skill_priority data) (JObj [])),
                         sg_recommendations = Text (or_json (recommendations data) (JArr [])),
                         sg_timestamp = ts\<rparr>],
                     skill_gaps_seq := skill_gaps_seq d + 1\<rparr>)))"

text \<open>
  \<^verbatim>\<open>storeToDatabase\<close>: the whole body is one \<^verbatim>\<open>try\<close>, whose \<^verbatim>\<open>catch\<close> writes a console
  line and returns normally.
\<close>

definition storeToDatabase :: "faults \<Rightarrow> date \<Rightarrow> nat \<Rightarrow> db \<Rightarrow> submission \<Rightarrow> db \<times> string list" where
  "storeToDatabase flt now ts d data =
     (case insert_skill_gap flt ts d data of
        Inl e \<Rightarrow> (d, [''Database storage error:''])
      | Inr d1 \<Rightarrow>
          (let st2 = updateSkillAnalytics flt (missing_skills data) (department data) (d1, []);
               (d3, out) = updateTrends flt now (missing_skills data) st2
           in (d3, out @ [''Data stored in database''])))"

text \<open>
  \<^verbatim>\<open>POST /api/analyze\<close>. The analysis comes from the external model
  (\<^verbatim>\<open>analyzeWithGemini\<close>, which throws or returns an object whose
  \<^verbatim>\<open>matchPercentage\<close> is not undefined and whose \<^verbatim>\<open>missingSkills\<close> is an array); it and
  the three string helpers are inputs of the model.
\<close>

record analysis =
  matchPercentage :: "int option"
  missingSkills :: "string list"
  matchedSkills :: "json option"
  skillPriority :: "json option"
  recommendations_of :: "json option"

record analyze_body =
  resumeText :: "string option"
  jobDescription :: "string option"
  studentName :: "string option"
  department_of :: "string option"
  academicYear :: "string option"
  companyName :: "string option"

record externals =
  analyzeWithGemini :: "string \<Rightarrow> string \<Rightarrow> string + analysis"
  generateStudentId :: "string option \<Rightarrow> string"
  extractJobRole :: "string \<Rightarrow> string"
  extractCompanyName :: "string \<Rightarrow> string"

datatype analyze_response = Status_400 | Status_500 string | Status_200 analysis

definition submission_of :: "externals \<Rightarrow> analyze_body \<Rightarrow> analysis \<Rightarrow> submission" where
  "submission_of ext body a =
     \<lparr>user_id = None,
      student_id = generateStudentId ext (studentName body),
      student_name = Some (or_default (studentName body) ''Anonymous''),
      department = Some (or_default (department_of body) ''Unknown''),
      academic_year = Some (or_default (academicYear body) ''Not Specified''),
      job_role = extractJobRole ext (or_default (jobDescription body) []),
      company_name = Some (or_default (companyName body) (extractCompanyName ext (or_default (jobDescription body) []))),
      match_percentage = matchPercentage a,
      missing_skills = missingSkills a,
      matched_skills = matchedSkills a,
      skill_priority = skillPriority a,
      recommendations = recommendations_of a\<rparr>"

definition analyze :: "externals \<Rightarrow> faults \<Rightarrow> date \<Rightarrow> nat \<Rightarrow> db \<Rightarrow> analyze_body \<Rightarrow> analyze_response \<times> db \<times> string list" where
  "analyze ext flt now ts d body =
     (if or_default (resumeText body) [] = [] \<or> or_default (jobDescription body) [] = [] then (Status_400, d, [])
      else (case analyzeWithGemini ext (or_default (resumeText body) []) (or_default (jobDescription body) []) of
              Inl message \<Rightarrow> (Status_500 message, d, [''Error in analysis:''])
            | Inr a \<Rightarrow>
                (let (d', out) = storeToDatabase flt now ts d (submission_of ext body a)
                 in (Status_200 a, d', out))))"

section \<open>The analytics aggregator\<close>

text \<open>
  \<^verbatim>\<open>req.query\<close> of \<^verbatim>\<open>GET /api/analytics\<close>; \<^verbatim>\<open>dateRange\<close> is read and never used. A
  parameter adds its condition to the WHERE clause when it is truthy.
\<close>

record analytics_query =
  query_department :: "string option"
  query_academicYear :: "string option"

fun condition :: "string option \<Rightarrow> string \<Rightarrow> bool" where
  "condition None col = True"
| "condition (Some p) col = (if p = [] then True else col = p)"

definition whereClause :: "analytics_query \<Rightarrow> skill_gaps_row \<Rightarrow> bool" where
  "whereClause q r = (condition (query_department q) (sg_department r) \<and> condition (query_academicYear q) (sg_academic_year r))"

text \<open>
  SQL aggregates. \<^verbatim>\<open>AVG\<close> of no rows is NULL; the averages are exact rationals
  (the double quotient of an integer sum by a count rounds to the same integer).
  \<^verbatim>\<open>GROUP BY\<close> yields one group per key, in key order. SQL leaves the order of equal
  keys under \<^verbatim>\<open>ORDER BY\<close> open; SQLite returns them as follows. The recent records and
  the rows of the two counter queries (grouped along the UNIQUE index of their table)
  keep their previous order among equal keys: \<open>order_by_desc\<close>. The company groups,
  grouped and ordered through temporary sorters, come out with equal counts in descending
  name order: the reverse of the ascending stable sort.
\<close>

definition sql_avg :: "int list \<Rightarrow> rat option" where
  "sql_avg xs = (if xs = [] then None else Some (of_int (sum_list xs) / of_nat (length xs)))"

definition group_by :: "('r \<Rightarrow> string) \<Rightarrow> 'r list \<Rightarrow> (string \<times> 'r list) list" where
  "group_by key rows = map (\<lambda>k. (k, filter (\<lambda>r. key r = k) rows)) (sort (remdups (map key rows)))"

definition order_by_desc :: "('r \<Rightarrow> int) \<Rightarrow> 'r list \<Rightarrow> 'r list" where
  "order_by_desc key rows = sort_key (\<lambda>r. - key r) rows"

text \<open>\<^verbatim>\<open>Math.round(x || 0)\<close> for a nullable average, and \<^verbatim>\<open>Math.round\<close> itself.\<close>

definition Math_round :: "rat \<Rightarrow> int" where
  "Math_round x = \<lfloor>x + 1 / 2\<rfloor>"

definition round_or_0 :: "rat option \<Rightarrow> int" where
  "round_or_0 a = (case a of None \<Rightarrow> Math_round 0 | Some x \<Rightarrow> Math_round x)"

text \<open>The rows of the three grouped queries: the key, COUNT(*) and AVG(match_percentage).\<close>

record group_row =
  group_key :: string
  group_count :: nat
  group_avgMatch :: "rat option"

definition grouped :: "(skill_gaps_row \<Rightarrow> string) \<Rightarrow> skill_gaps_row list \<Rightarrow> group_row list" where
  "grouped key rows =
     map (\<lambda>(k, g). \<lparr>group_key = k, group_count = length g, group_avgMatch = sql_avg (map sg_match_percentage g)\<rparr>)
       (group_by key rows)"

definition deptStats :: "db \<Rightarrow> group_row list" where
  "deptStats d = grouped sg_department (skill_gaps d)"

definition yearStats :: "db \<Rightarrow> group_row list" where
  "yearStats d = grouped sg_academic_year (skill_gaps d)"

definition companyStats :: "db \<Rightarrow> group_row list" where
  "companyStats d = take 10 (rev (sort_key (\<lambda>r. int (group_count r)) (grouped sg_company_name (skill_gaps d))))"

definition recentActivity :: "db \<Rightarrow> analytics_query \<Rightarrow> skill_gaps_row list" where
  "recentActivity d q = take 20 (order_by_desc (\<lambda>r. int (sg_timestamp r)) (filter (whereClause q) (skill_gaps d)))"

text \<open>
  The rows of the two counter queries are kept as objects, because
  \<^verbatim>\<open>generateEnhancedAlerts\<close> reads them by property name. Their columns
  \<^verbatim>\<open>department\<close> (a bare column of a grouped query) and \<^verbatim>\<open>weekly_data\<close> are read
  nowhere and are left out.
\<close>

definition topSkillsFromAnalytics :: "db \<Rightarrow> sql_row list" where
  "topSkillsFromAnalytics d =
     map (\<lambda>(skill_name, cnt). [(''skill_name'', SqlText skill_name), (''count'', SqlInt cnt)])
       (take 15 (order_by_desc snd
          (map (\<lambda>(k, g). (k, sum_list (map snd g))) (group_by (\<lambda>e. fst (fst e)) (skill_analytics d)))))"

definition trendingSkills :: "db \<Rightarrow> date \<Rightarrow> sql_row list" where
  "trendingSkills d now =
     (let currentWeek = getWeekNumber now; currentYear = getFullYear now
      in map (\<lambda>(skill_name, total). [(''skill_name'', SqlText skill_name), (''total'', SqlInt total)])
           (take 10 (order_by_desc snd
              (map (\<lambda>(k, g). (k, sum_list (map snd g)))
                 (group_by (\<lambda>e. fst (fst e))
                    (filter (\<lambda>((skill, week_number, year), cnt). year = currentYear \<and> week_number \<ge> max 1 (currentWeek - 3))
                       (trends d)))))))"

text \<open>The match distribution: four filters over the scores of the rows under the filter.\<close>

record match_distribution =
  high :: nat
  medium :: nat
  low :: nat
  veryLow :: nat

definition matchDist :: "db \<Rightarrow> analytics_query \<Rightarrow> int list" where
  "matchDist d q = map sg_match_percentage (filter (whereClause q) (skill_gaps d))"

definition distribution :: "int list \<Rightarrow> match_distribution" where
  "distribution scores =
     \<lparr>high = length (filter (\<lambda>p. p \<ge> 80) scores),
      medium = length (filter (\<lambda>p. p \<ge> 60 \<and> p < 80) scores),
      low = length (filter (\<lambda>p. p \<ge> 40 \<and> p < 60) scores),
      veryLow = length (filter (\<lambda>p. p < 40) scores)\<rparr>"

text \<open>
  The priority breakdown: three \<^verbatim>\<open>Set\<close>s filled record by record. Each record is read in
  its own \<^verbatim>\<open>try\<close>: what was added before a throw stays. A \<^verbatim>\<open>Set\<close> keeps insertion
  order and holds a primitive once; parsed arrays and objects are fresh, so never equal.
\<close>

fun primitive :: "json \<Rightarrow> bool" where
  "primitive (JArr xs) = False"
| "primitive (JObj ps) = False"
| "primitive _ = True"

definition set_add :: "json list \<Rightarrow> json \<Rightarrow> json list" where
  "set_add acc v = (if primitive v \<and> v \<in> set acc then acc else acc @ [v])"

text \<open>
  \<^verbatim>\<open>if (priority.t) priority.t.forEach(add)\<close>: a truthy value that is no array has no
  \<^verbatim>\<open>forEach\<close>, and the call throws.
\<close>

definition add_tier :: "json \<Rightarrow> string \<Rightarrow> json list \<Rightarrow> js_error + json list" where
  "add_tier priority t acc =
     (case field priority t of
        None \<Rightarrow> Inr acc
      | Some v \<Rightarrow>
          if truthy v then (case v of JArr xs \<Rightarrow> Inr (foldl set_add acc xs) | _ \<Rightarrow> Inl TypeError)
          else Inr acc)"

record priority_sets =
  critical :: "json list"
  important :: "json list"
  optional :: "json list"

definition add_priorities :: "priority_sets \<Rightarrow> json_text \<Rightarrow> priority_sets" where
  "add_priorities s col =
     (case JSON_parse_or col (JObj []) of
        Inl e \<Rightarrow> s
      | Inr JNull \<Rightarrow> s
      | Inr priority \<Rightarrow>
          (case add_tier priority ''critical'' (critical s) of
             Inl e \<Rightarrow> s
           | Inr c \<Rightarrow>
               (case add_tier priority ''important'' (important s) of
                  Inl e \<Rightarrow> s\<lparr>critical := c\<rparr>
                | Inr i \<Rightarrow>
                    (case add_tier priority ''optional'' (optional s) of
                       Inl e \<Rightarrow> s\<lparr>critical := c, important := i\<rparr>
                     | Inr o' \<Rightarrow> s\<lparr>critical := c, important := i, optional := o'\<rparr>))))"

definition skillPriorityBreakdown :: "db \<Rightarrow> analytics_query \<Rightarrow> priority_sets" where
  "skillPriorityBreakdown d q =
     foldl add_priorities \<lparr>critical = [], important = [], optional = []\<rparr>
       (map sg_skill_priority (filter (whereClause q) (skill_gaps d)))"

section \<open>The alert generator\<close>

text \<open>
  \<^verbatim>\<open>lowMatchPercentage\<close> is a double. The total is the sum of the four counts, so a
  zero total has a zero numerator and the quotient is NaN, which compares false. For a
  positive total the value is kept as the exact rational, and the comparison with 40 is
  made on it: the double is exactly 40 when the quotient is 2/5, and a quotient above 2/5
  exceeds it by at least 1/(5 total), far more than the rounding error of the two
  operations. \<^verbatim>\<open>Math.round(lowMatchPercentage)\<close>, however, can differ from the rounding
  of the exact value (23 of 40 gives the double 57.49999999999999, the exact value is
  57.5), so what \<^verbatim>\<open>Math.round\<close> returns for the double of an exact value is the
  parameter \<open>round_double\<close>.
\<close>

datatype js_number = NaN | Fin rat

definition js_divide :: "nat \<Rightarrow> nat \<Rightarrow> js_number" where
  "js_divide a b = (if b = 0 then NaN else Fin (of_nat a / of_nat b))"

fun js_times :: "js_number \<Rightarrow> rat \<Rightarrow> js_number" where
  "js_times NaN k = NaN"
| "js_times (Fin x) k = Fin (x * k)"

fun js_number_gt :: "js_number \<Rightarrow> rat \<Rightarrow> bool" where
  "js_number_gt NaN k = False"
| "js_number_gt (Fin x) k = (x > k)"

fun template_round :: "(rat \<Rightarrow> int) \<Rightarrow> js_number \<Rightarrow> string" where
  "template_round round_double NaN = ''NaN''"
| "template_round round_double (Fin x) = show_int (round_double x)"

text \<open>
  \<^verbatim>\<open>generateEnhancedAlerts(topSkills, trending, distribution)\<close>. The \<^verbatim>\<open>icon\<close> property
  of an alert, a pictograph, is left out.
\<close>

definition critical_alert :: "sql_row list \<Rightarrow> json list" where
  "critical_alert topSkills =
     (case topSkills of
        [] \<Rightarrow> []
      | top' # rest \<Rightarrow>
          if js_gt (property top' ''count'') 5
          then [object
                 [(''severity'', Some (JStr ''critical'')),
                  (''title'', Some (JStr (''High Demand: '' @ template (property top' ''skill'')))),
                  (''description'', Some (JStr (template (property top' ''count'')
                       @ '' students missing this critical skill. Consider emergency workshop.''))),
                  (''count'', map_option json_of_sql (property top' ''count'')),
                  (''action'', Some (JStr ''Schedule Workshop''))]]
          else [])"

definition trending_alert :: "sql_row list \<Rightarrow> json list" where
  "trending_alert trending =
     (case trending of
        [] \<Rightarrow> []
      | topTrend # rest \<Rightarrow>
          [object
            [(''severity'', Some (JStr ''warning'')),
             (''title'', Some (JStr (''Trending Skill Gap: '' @ template (property topTrend ''skill'')))),
             (''description'', Some (JStr (''Emerging demand detected. '' @ template (property topTrend ''total'')
                  @ '' instances in past 4 weeks.''))),
             (''count'', map_option json_of_sql (property topTrend ''total'')),
             (''action'', Some (JStr ''Add to Curriculum''))]])"

definition readiness_alert :: "(rat \<Rightarrow> int) \<Rightarrow> match_distribution \<Rightarrow> json list" where
  "readiness_alert round_double distr =
     (let totalStudents = high distr + medium distr + low distr + veryLow distr;
          lowMatchPercentage = js_times (js_divide (low distr + veryLow distr) totalStudents) 100
      in if js_number_gt lowMatchPercentage 40
         then [object
                [(''severity'', Some (JStr ''warning'')),
                 (''title'', Some (JStr ''Overall Readiness Concern'')),
                 (''description'', Some (JStr (template_round round_double lowMatchPercentage
                      @ ''% of students have match scores below 60%. Review curriculum alignment.''))),
                 (''action'', Some (JStr ''Review Curriculum''))]]
         else [])"

definition generateEnhancedAlerts :: "(rat \<Rightarrow> int) \<Rightarrow> sql_row list \<Rightarrow> sql_row list \<Rightarrow> match_distribution \<Rightarrow> json list" where
  "generateEnhancedAlerts round_double topSkills trending distr =
     critical_alert topSkills @ trending_alert trending @ readiness_alert round_double distr"

section \<open>The snapshot\<close>

text \<open>
  One entry of \<^verbatim>\<open>recentActivity\<close>. \<^verbatim>\<open>JSON.parse\<close> of the stored skills is guarded,
  \<^verbatim>\<open>skills.slice(0, 3)\<close> is not: arrays and strings have \<^verbatim>\<open>slice\<close>, any other value
  makes the call throw. The timestamp, a text in the store, is kept as the number that
  orders it.
\<close>

fun slice_0_3 :: "json \<Rightarrow> js_error + json" where
  "slice_0_3 (JArr xs) = Inr (JArr (take 3 xs))"
| "slice_0_3 (JStr s) = Inr (JStr (take 3 s))"
| "slice_0_3 _ = Inl TypeError"

definition activity_entry :: "skill_gaps_row \<Rightarrow> js_error + json" where
  "activity_entry r =
     (let skills = (case JSON_parse_or (sg_missing_skills r) (JArr []) of Inl e \<Rightarrow> JArr [] | Inr j \<Rightarrow> j)
      in case slice_0_3 skills of
           Inl e \<Rightarrow> Inl e
         | Inr topSkills \<Rightarrow>
             Inr (object
                   [(''id'', Some (JNum (int (sg_id r)))),
                    (''studentName'', Some (JStr (or_default (Some (sg_student_name r)) ''Anonymous''))),
                    (''timestamp'', Some (JNum (int (sg_timestamp r)))),
                    (''department'', Some (JStr (sg_department r))),
                    (''academicYear'', Some (JStr (sg_academic_year r))),
                    (''jobRole'', Some (JStr (sg_job_role r))),
                    (''companyName'', Some (JStr (sg_company_name r))),
                    (''matchScore'', Some (JNum (Math_round (of_int (sg_match_percentage r))))),
                    (''topSkills'', Some topSkills)]))"

text \<open>\<^verbatim>\<open>rows.map(f)\<close> where \<open>f\<close> may throw: the first throw ends the map.\<close>

fun map_throwing :: "('a \<Rightarrow> js_error + json) \<Rightarrow> 'a list \<Rightarrow> js_error + json list" where
  "map_throwing f [] = Inr []"
| "map_throwing f (x # xs) =
     (case f x of
        Inl e \<Rightarrow> Inl e
      | Inr y \<Rightarrow> (case map_throwing f xs of Inl e \<Rightarrow> Inl e | Inr ys \<Rightarrow> Inr (y # ys)))"

definition group_json :: "string \<Rightarrow> string \<Rightarrow> string \<Rightarrow> group_row \<Rightarrow> json" where
  "group_json key_name count_name avg_name r =
     object [(key_name, Some (JStr (group_key r))),
             (count_name, Some (JNum (int (group_count r)))),
             (avg_name, Some (JNum (round_or_0 (group_avgMatch r))))]"

definition distribution_json :: "match_distribution \<Rightarrow> json" where
  "distribution_json distr =
     object [(''high'', Some (JNum (int (high distr)))),
             (''medium'', Some (JNum (int (medium distr)))),
             (''low'', Some (JNum (int (low distr)))),
             (''veryLow'', Some (JNum (int (veryLow distr))))]"

text \<open>
  The body of the \<^verbatim>\<open>try\<close> of \<^verbatim>\<open>GET /api/analytics\<close>: the queries in their order, then
  the object given to \<^verbatim>\<open>res.json\<close>. A failing store makes the first query throw.
\<close>

definition analytics_try :: "(rat \<Rightarrow> int) \<Rightarrow> faults \<Rightarrow> date \<Rightarrow> db \<Rightarrow> analytics_query \<Rightarrow> js_error + json" where
  "analytics_try round_double flt now d q =
     (if flt ReadAnalytics then Inl SqliteError
      else
        (let rows = filter (whereClause q) (skill_gaps d);
             totalStudents = length (remdups (map sg_student_id rows));
             avgMatch = sql_avg (map sg_match_percentage rows);
             topSkills = topSkillsFromAnalytics d;
             trending = trendingSkills d now;
             distr = distribution (matchDist d q);
             breakdown = skillPriorityBreakdown d q
         in case map_throwing activity_entry (recentActivity d q) of
              Inl e \<Rightarrow> Inl e
            | Inr activity \<Rightarrow>
                Inr (object
                  [(''stats'', Some (object
                       [(''totalStudents'', Some (JNum (int totalStudents))),
                        (''uniqueSkills'', Some (JNum (int (length topSkills)))),
                        (''averageMatch'', Some (JNum (round_or_0 avgMatch))),
                        (''totalDepartments'', Some (JNum (int (length (deptStats d))))),
                        (''totalAcademicYears'', Some (JNum (int (length
                            (filter (\<lambda>y. group_key y \<noteq> ''Not Specified'') (yearStats d)))))),
                        (''totalCompanies'', Some (JNum (int (length
                            (filter (\<lambda>c. group_key c \<noteq> ''Unknown'') (companyStats d))))))])),
                   (''topMissingSkills'', Some (JArr (map (\<lambda>s. object
                       [(''skill'', map_option json_of_sql (property s ''skill_name'')),
                        (''count'', map_option json_of_sql (property s ''count''))]) topSkills))),
                   (''skillPriorityBreakdown'', Some (object
                       [(''critical'', Some (JArr (critical breakdown))),
                        (''important'', Some (JArr (important breakdown))),
                        (''optional'', Some (JArr (optional breakdown)))])),
                   (''departmentStats'', Some (JArr (map (group_json ''department'' ''count'' ''avgMatch'') (deptStats d)))),
                   (''academicYearStats'', Some (JArr (map (group_json ''year'' ''count'' ''avgMatch'') (yearStats d)))),
                   (''companyStats'', Some (JArr (map (group_json ''company'' ''studentCount'' ''avgReadiness'') (companyStats d)))),
                   (''trendingSkills'', Some (JArr (map (\<lambda>t. object
                       [(''skill'', map_option json_of_sql (property t ''skill_name'')),
                        (''total'', map_option json_of_sql (property t ''total'')),
                        (''trend'', Some (JStr ''increasing''))]) trending))),
                   (''recentActivity'', Some (JArr activity)),
                   (''alerts'', Some (JArr (generateEnhancedAlerts round_double topSkills trending distr))),
                   (''matchDistribution'', Some (distribution_json distr))])))"

definition getMockAnalytics :: json where
  "getMockAnalytics =
     object
       [(''stats'', Some (object
            [(''totalStudents'', Some (JNum 0)),
             (''uniqueSkills'', Some (JNum 0)),
             (''averageMatch'', Some (JNum 0)),
             (''totalDepartments'', Some (JNum 0))])),
        (''alerts'', Some (JArr [])),
        (''topMissingSkills'', Some (JArr [])),
        (''departmentStats'', Some (JArr [])),
        (''matchDistribution'', Some (object
            [(''high'', Some (JNum 0)), (''medium'', Some (JNum 0)), (''low'', Some (JNum 0)), (''veryLow'', Some (JNum 0))])),
        (''trends'', Some (JArr [])),
        (''recentActivity'', Some (JArr []))]"

text \<open>The handler: whatever the body throws, the \<^verbatim>\<open>catch\<close> answers with the mock snapshot.\<close>

definition analytics :: "(rat \<Rightarrow> int) \<Rightarrow> faults \<Rightarrow> date \<Rightarrow> db \<Rightarrow> analytics_query \<Rightarrow> json" where
  "analytics round_double flt now d q =
     (case analytics_try round_double flt now d q of Inl e \<Rightarrow> getMockAnalytics | Inr snapshot \<Rightarrow> snapshot)"

section \<open>Concrete inputs\<close>

text \<open>The inputs at which the theorems below are evaluated.\<close>

definition no_faults :: faults where
  "no_faults op = False"

definition insert_fails :: faults where
  "insert_fails op = (op = InsertSkillGap)"

definition read_fails :: faults where
  "read_fails op = (op = ReadAnalytics)"

definition empty_db :: db where
  "empty_db = \<lparr>skill_gaps = [], skill_gaps_seq = 0, skill_analytics = [], trends = []\<rparr>"

definition dec_31_2024 :: date where
  "dec_31_2024 = \<lparr>getFullYear = 2024, getMonth = 11, getDate = 31\<rparr>"

definition jan_2_2024 :: date where
  "jan_2_2024 = \<lparr>getFullYear = 2024, getMonth = 0, getDate = 2\<rparr>"

definition jun_12_2024 :: date where
  "jun_12_2024 = \<lparr>getFullYear = 2024, getMonth = 5, getDate = 12\<rparr>"

definition example_submission :: "string list \<Rightarrow> submission" where
  "example_submission skills =
     \<lparr>user_id = None, student_id = ''STU_ADA_1'', student_name = Some ''Ada'',
      department = Some ''CS'', academic_year = Some ''3'', job_role = ''Developer'',
      company_name = Some ''Acme'', match_percentage = Some 72, missing_skills = skills,
      matched_skills = Some (JArr [JStr ''Git'']), skill_priority = None, recommendations = None\<rparr>"

definition example_analysis :: analysis where
  "example_analysis =
     \<lparr>matchPercentage = Some 72, missingSkills = [''SQL''], matchedSkills = Some (JArr [JStr ''Git'']),
      skillPriority = None, recommendations_of = None\<rparr>"

definition example_externals :: externals where
  "example_externals =
     \<lparr>analyzeWithGemini = (\<lambda>resume job. Inr example_analysis),
      generateStudentId = (\<lambda>name. ''STU_ADA_1''),
      extractJobRole = (\<lambda>job. ''Developer''),
      extractCompanyName = (\<lambda>job. ''Unknown'')\<rparr>"

definition example_body :: analyze_body where
  "example_body =
     \<lparr>resumeText = Some ''Ada, Git'', jobDescription = Some ''Developer with SQL'', studentName = Some ''Ada'',
      department_of = Some ''CS'', academicYear = Some ''3'', companyName = None\<rparr>"

definition example_row :: "nat \<Rightarrow> string \<Rightarrow> string \<Rightarrow> string \<Rightarrow> string \<Rightarrow> int \<Rightarrow> json_text \<Rightarrow> skill_gaps_row" where
  "example_row i student dept year company score skills =
     \<lparr>sg_id = i, sg_user_id = None, sg_student_id = student, sg_student_name = student,
      sg_department = dept, sg_academic_year = year, sg_job_role = ''Developer'',
      sg_company_name = company, sg_match_percentage = score, sg_missing_skills = skills,
      sg_matched_skills = Text (JArr []), sg_skill_priority = Text (JObj [(''critical'', JArr [JStr ''SQL''])]),
      sg_recommendations = Text (JArr []), sg_timestamp = i\<rparr>"

definition example_db :: db where
  "example_db =
     \<lparr>skill_gaps =
        [example_row 1 ''ada'' ''CS'' ''3'' ''Acme'' 80 (Text (JArr [JStr ''SQL''])),
         example_row 2 ''bob'' ''CS'' ''3'' ''Acme'' 59 (Text (JArr [JStr ''SQL'', JStr ''Go''])),
         example_row 3 ''cyd'' ''EE'' ''2'' ''Globex'' 39 (Text (JArr [JStr ''Go'']))],
      skill_gaps_seq = 3,
      skill_analytics = [((''SQL'', ''CS''), 6), ((''Go'', ''EE''), 2)],
      trends = [((''SQL'', 23, 2024), 5), ((''SQL'', 24, 2024), 1), ((''Go'', 24, 2024), 2)]\<rparr>"

definition no_filter :: analytics_query where
  "no_filter = \<lparr>query_department = None, query_academicYear = None\<rparr>"

definition cs_filter :: analytics_query where
  "cs_filter = \<lparr>query_department = Some ''CS'', query_academicYear = None\<rparr>"

text \<open>
  The exact rounding, for \<open>round_double\<close>: it agrees with the double computation on the
  values used below.
\<close>

definition nearest_percent :: "rat \<Rightarrow> int" where
  "nearest_percent x = Math_round x"

definition jul_24_2024 :: date where
  "jul_24_2024 = \<lparr>getFullYear = 2024, getMonth = 6, getDate = 24\<rparr>"

definition jun_14_2024 :: date where
  "jun_14_2024 = \<lparr>getFullYear = 2024, getMonth = 5, getDate = 14\<rparr>"

text \<open>A store with a record whose \<^verbatim>\<open>missing_skills\<close> text is \<^verbatim>\<open>null\<close>.\<close>

definition corrupt_db :: db where
  "corrupt_db = example_db\<lparr>skill_gaps := skill_gaps example_db @ [example_row 4 ''dan'' ''CS'' ''1'' ''Acme'' 50 (Text JNull)]\<rparr>"


section \<open>Ingestion: the trend key, a failing insert, the counters\<close>

text \<open>
  C1. The claim: a submission on a date whose ISO week belongs to the following ISO year
  is counted under that following year. The code does not do so. Tuesday 2024-12-31
  lies in the week whose Thursday is in 2025, and \<open>getWeekNumber\<close> numbers it 1 from
  that year's start; \<open>updateTrends\<close> pairs the 1 with \<^verbatim>\<open>now.getFullYear()\<close>, which is
  2024. The row is the one that 2024-01-02 uses: the two submissions, 52 weeks apart,
  increment the same counter.
\<close>

theorem updateTrends_year_end:
  "getUTCDay (Date_UTC 2024 11 31) = 2
   \<and> getUTCFullYear (Date_UTC 2024 11 31 + 4 - 2) = 2025
   \<and> getWeekNumber dec_31_2024 = 1
   \<and> trends (fst (updateTrends no_faults dec_31_2024 [''SQL''] (empty_db, []))) = [((''SQL'', 1, 2024), 1)]
   \<and> trends (fst (updateTrends no_faults dec_31_2024 [''SQL'']
         (updateTrends no_faults jan_2_2024 [''SQL''] (empty_db, [])))) = [((''SQL'', 1, 2024), 2)]"
  by code_simp

text \<open>Helper facts on the two counter loops.\<close>

lemma foldl_unchanged:
  "(\<And>st x. g (f st x) = g st) \<Longrightarrow> g (foldl f st xs) = g st"
  by (induction xs arbitrary: st) simp_all

lemma upsert_skill_gaps [simp]: "skill_gaps (fst (upsert_skill flt dept skill st)) = skill_gaps (fst st)"
  by (cases st) (simp add: upsert_skill_def split: option.splits)

lemma upsert_trend_gaps [simp]: "skill_gaps (fst (upsert_trend flt w y skill st)) = skill_gaps (fst st)"
  by (cases st) (simp add: upsert_trend_def split: option.splits)

lemma upsert_trend_analytics [simp]:
  "skill_analytics (fst (upsert_trend flt w y skill st)) = skill_analytics (fst st)"
  by (cases st) (simp add: upsert_trend_def split: option.splits)

lemma updateSkillAnalytics_gaps:
  "skill_gaps (fst (updateSkillAnalytics flt skills dept st)) = skill_gaps (fst st)"
  unfolding updateSkillAnalytics_def
  by (rule foldl_unchanged [where g = "\<lambda>st. skill_gaps (fst st)"]) simp

lemma updateTrends_gaps:
  "skill_gaps (fst (updateTrends flt now skills st)) = skill_gaps (fst st)"
  unfolding updateTrends_def Let_def
  by (rule foldl_unchanged [where g = "\<lambda>st. skill_gaps (fst st)"]) simp

lemma updateTrends_analytics:
  "skill_analytics (fst (updateTrends flt now skills st)) = skill_analytics (fst st)"
  unfolding updateTrends_def Let_def
  by (rule foldl_unchanged [where g = "\<lambda>st. skill_analytics (fst st)"]) simp

lemma upsert_skill_lookup:
  "\<not> flt (UpsertSkillAnalytics skill) \<Longrightarrow>
   map_of (skill_analytics (fst (upsert_skill flt dept skill (d, out)))) k =
     (if k = (skill, dept) then Some ((case map_of (skill_analytics d) k of None \<Rightarrow> 0 | Some c \<Rightarrow> c) + 1)
      else map_of (skill_analytics d) k)"
  by (auto simp: upsert_skill_def update_conv' map_add_def split: option.splits)

lemma foldl_upsert_skill_lookup:
  "\<forall>x\<in>set skills. \<not> flt (UpsertSkillAnalytics x) \<Longrightarrow>
   map_of (skill_analytics (fst (foldl (\<lambda>st skill. upsert_skill flt dept skill st) (d, out) skills))) (s, dept) =
     (if s \<in> set skills
      then Some ((case map_of (skill_analytics d) (s, dept) of None \<Rightarrow> 0 | Some c \<Rightarrow> c) + int (count_list skills s))
      else map_of (skill_analytics d) (s, dept))"
proof (induction skills arbitrary: d out)
  case Nil
  then show ?case by simp
next
  case (Cons x xs)
  obtain d1 out1 where step: "upsert_skill flt dept x (d, out) = (d1, out1)"
    by (cases "upsert_skill flt dept x (d, out)")
  from Cons.prems have nf: "\<not> flt (UpsertSkillAnalytics x)"
    and rest: "\<forall>x\<in>set xs. \<not> flt (UpsertSkillAnalytics x)"
    by simp_all
  have look: "map_of (skill_analytics d1) (s, dept) =
      (if s = x then Some ((case map_of (skill_analytics d) (s, dept) of None \<Rightarrow> 0 | Some c \<Rightarrow> c) + 1)
       else map_of (skill_analytics d) (s, dept))"
    using upsert_skill_lookup [where flt = flt and skill = x and dept = dept and d = d and out = out
        and k = "(s, dept)"] nf step
    by auto
  show ?case
    using Cons.IH [of d1 out1] rest look step
    by (auto split: option.splits)
qed

text \<open>
  C2. The claim: when the insert of the primary record fails, the request fails with a
  reported error and nothing is committed. On the code the second half holds and the
  first does not: \<open>storeToDatabase\<close> catches the error and returns, and the handler
  answers with the analysis as for a stored one. Counterexample: the store refuses the
  INSERT and the answer is \<open>Status_200\<close>.
\<close>

theorem analyze_insert_failure_counterexample:
  "insert_skill_gap insert_fails 1 empty_db (submission_of example_externals example_body example_analysis) = Inl SqliteError
   \<and> fst (analyze example_externals insert_fails jun_12_2024 1 empty_db example_body) = Status_200 example_analysis"
  by (simp add: analyze_def storeToDatabase_def insert_skill_gap_def insert_fails_def example_externals_def
      example_body_def)

text \<open>
  C2, amended: when the insert of the primary record fails, the failure is written to the
  console only; the store is left as it was (no record, no skill counter and no trend
  counter is written) and the caller receives the success response with the analysis.
\<close>

theorem analyze_insert_failure:
  assumes "or_default (resumeText body) [] \<noteq> []"
      and "or_default (jobDescription body) [] \<noteq> []"
      and "analyzeWithGemini ext (or_default (resumeText body) []) (or_default (jobDescription body) []) = Inr a"
      and "insert_skill_gap flt ts d (submission_of ext body a) = Inl e"
  shows "analyze ext flt now ts d body = (Status_200 a, d, [''Database storage error:''])"
  using assms by (simp add: analyze_def storeToDatabase_def)

theorem analyze_insert_failure_witness:
  "analyze example_externals insert_fails jun_12_2024 1 empty_db example_body
     = (Status_200 example_analysis, empty_db, [''Database storage error:''])
   \<and> analyze (example_externals\<lparr>analyzeWithGemini := (\<lambda>resume job. Inr (example_analysis\<lparr>matchPercentage := None\<rparr>))\<rparr>)
        no_faults jun_12_2024 1 empty_db example_body
     = (Status_200 (example_analysis\<lparr>matchPercentage := None\<rparr>), empty_db, [''Database storage error:''])"
proof
  show "analyze example_externals insert_fails jun_12_2024 1 empty_db example_body
     = (Status_200 example_analysis, empty_db, [''Database storage error:''])"
    by (rule analyze_insert_failure [where e = SqliteError])
       (simp_all add: insert_skill_gap_def insert_fails_def example_externals_def example_body_def)
  show "analyze (example_externals\<lparr>analyzeWithGemini := (\<lambda>resume job. Inr (example_analysis\<lparr>matchPercentage := None\<rparr>))\<rparr>)
        no_faults jun_12_2024 1 empty_db example_body
     = (Status_200 (example_analysis\<lparr>matchPercentage := None\<rparr>), empty_db, [''Database storage error:''])"
    by (rule analyze_insert_failure [where e = SqliteError])
       (simp_all add: insert_skill_gap_def no_faults_def example_externals_def example_body_def
          submission_of_def example_analysis_def)
qed

text \<open>
  C3. The claim: after a valid submission is recorded, the number of records has grown by
  one and the counter of each distinct missing skill has grown by exactly one (or was
  created at one). The loop runs once per element of the list, not once per distinct
  skill: a skill listed twice is counted twice.
\<close>

theorem record_counts_counterexample:
  "map_of (skill_analytics empty_db) (''SQL'', ''CS'') = None
   \<and> map_of (skill_analytics (fst (storeToDatabase no_faults jun_12_2024 1 empty_db
        (example_submission [''SQL'', ''SQL''])))) (''SQL'', ''CS'') = Some 2"
  by code_simp

text \<open>
  C3, amended: after a valid submission is recorded by a store that fails neither on the
  insert nor on the skill counters, the number of records has grown by exactly one, and
  the counter of each missing skill, keyed by the skill and the department (or
  \<open>''Unknown''\<close>), has grown by the number of times the skill is listed (from 0 when it
  did not exist): by exactly one for a skill listed once.
\<close>

theorem record_counts:
  assumes "match_percentage data = Some mp"
      and "\<not> flt InsertSkillGap"
      and "\<forall>x\<in>set (missing_skills data). \<not> flt (UpsertSkillAnalytics x)"
  shows "length (skill_gaps (fst (storeToDatabase flt now ts d data))) = length (skill_gaps d) + 1
       \<and> (\<forall>s\<in>set (missing_skills data).
            map_of (skill_analytics (fst (storeToDatabase flt now ts d data)))
                (s, or_default (department data) ''Unknown'') =
              Some ((case map_of (skill_analytics d) (s, or_default (department data) ''Unknown'') of
                       None \<Rightarrow> 0 | Some c \<Rightarrow> c)
                    + int (count_list (missing_skills data) s)))"
proof -
  obtain d1 where ins: "insert_skill_gap flt ts d data = Inr d1"
    and g1: "length (skill_gaps d1) = length (skill_gaps d) + 1"
    and a1: "skill_analytics d1 = skill_analytics d"
    using assms(1,2) by (simp add: insert_skill_gap_def)
  let ?st2 = "updateSkillAnalytics flt (missing_skills data) (department data) (d1, [])"
  have fin: "fst (storeToDatabase flt now ts d data) = fst (updateTrends flt now (missing_skills data) ?st2)"
    by (simp add: storeToDatabase_def ins Let_def split: prod.splits)
  have "skill_gaps (fst (storeToDatabase flt now ts d data)) = skill_gaps d1"
    by (simp add: fin updateTrends_gaps updateSkillAnalytics_gaps)
  moreover have "skill_analytics (fst (storeToDatabase flt now ts d data)) = skill_analytics (fst ?st2)"
    by (simp add: fin updateTrends_analytics)
  moreover have "\<forall>s\<in>set (missing_skills data).
      map_of (skill_analytics (fst ?st2)) (s, or_default (department data) ''Unknown'') =
        Some ((case map_of (skill_analytics d) (s, or_default (department data) ''Unknown'') of
                 None \<Rightarrow> 0 | Some c \<Rightarrow> c)
              + int (count_list (missing_skills data) s))"
    using foldl_upsert_skill_lookup [where flt = flt and skills = "missing_skills data"
        and dept = "or_default (department data) ''Unknown''" and d = d1 and out = "[]"] assms(3)
    by (simp add: updateSkillAnalytics_def a1)
  ultimately show ?thesis using g1 by simp
qed

theorem record_counts_witness:
  "length (skill_gaps (fst (storeToDatabase no_faults jun_12_2024 1 empty_db (example_submission [''SQL'', ''Go''])))) = 1
   \<and> map_of (skill_analytics (fst (storeToDatabase no_faults jun_12_2024 1 empty_db
        (example_submission [''SQL'', ''Go''])))) (''SQL'', ''CS'') = Some 1
   \<and> map_of (skill_analytics (fst (storeToDatabase no_faults jun_12_2024 1 empty_db
        (example_submission [''SQL'', ''Go''])))) (''Go'', ''CS'') = Some 1"
  using record_counts [where data = "example_submission [''SQL'', ''Go'']" and mp = 72 and flt = no_faults
      and now = jun_12_2024 and ts = 1 and d = empty_db]
  by (simp add: example_submission_def no_faults_def empty_db_def)

section \<open>The aggregator: filter, failure, distribution, idempotence, trend\<close>

text \<open>Helper facts: what a successful body puts into the fields of the snapshot.\<close>

lemma field_object [simp]: "field (object ps) k = map_of (defined_props ps) k"
  by (simp add: object_def)

lemma defined_props_Cons:
  "defined_props ((k, v) # ps) = (case v of None \<Rightarrow> defined_props ps | Some x \<Rightarrow> (k, x) # defined_props ps)"
  by (cases v) simp_all

lemma analytics_try_success:
  assumes "analytics_try round_double flt now d q = Inr s"
  obtains activity where
    "map_throwing activity_entry (recentActivity d q) = Inr activity"
    "\<not> flt ReadAnalytics"
    "field s ''departmentStats'' = Some (JArr (map (group_json ''department'' ''count'' ''avgMatch'') (deptStats d)))"
    "field s ''academicYearStats'' = Some (JArr (map (group_json ''year'' ''count'' ''avgMatch'') (yearStats d)))"
    "field s ''companyStats'' = Some (JArr (map (group_json ''company'' ''studentCount'' ''avgReadiness'') (companyStats d)))"
    "field s ''matchDistribution'' = Some (distribution_json (distribution (matchDist d q)))"
    "Option.bind (field s ''stats'') (\<lambda>st. field st ''totalStudents'') =
        Some (JNum (int (length (remdups (map sg_student_id (filter (whereClause q) (skill_gaps d)))))))"
    "Option.bind (field s ''stats'') (\<lambda>st. field st ''averageMatch'') =
        Some (JNum (round_or_0 (sql_avg (map sg_match_percentage (filter (whereClause q) (skill_gaps d))))))"
    "field s ''trendingSkills'' = Some (JArr (map (\<lambda>t. object
                       [(''skill'', map_option json_of_sql (property t ''skill_name'')),
                        (''total'', map_option json_of_sql (property t ''total'')),
                        (''trend'', Some (JStr ''increasing''))]) (trendingSkills d now)))"
  using assms
  by (auto simp: analytics_try_def Let_def split: if_splits sum.splits)














text \<open>
  C5. The claim: on any internal failure the caller receives an empty, zeroed snapshot
  with the documented field names. The failure is caught and a zeroed snapshot is
  returned, but that snapshot is a shorter one: it has no \<open>trendingSkills\<close>,
  \<open>academicYearStats\<close>, \<open>companyStats\<close> or \<open>skillPriorityBreakdown\<close>, and an empty list
  under the name \<open>trends\<close>.
\<close>

theorem analytics_failure_counterexample:
  "analytics_try nearest_percent read_fails jun_12_2024 example_db no_filter = Inl SqliteError
   \<and> field (analytics nearest_percent read_fails jun_12_2024 example_db no_filter) ''trendingSkills'' = None
   \<and> field (analytics nearest_percent read_fails jun_12_2024 example_db no_filter) ''academicYearStats'' = None
   \<and> field (analytics nearest_percent read_fails jun_12_2024 example_db no_filter) ''companyStats'' = None
   \<and> field (analytics nearest_percent read_fails jun_12_2024 example_db no_filter) ''skillPriorityBreakdown'' = None
   \<and> field (analytics nearest_percent read_fails jun_12_2024 example_db no_filter) ''trends'' = Some (JArr [])"
  by (simp add: analytics_def analytics_try_def read_fails_def getMockAnalytics_def)

text \<open>
  C5, amended: whenever the body of the aggregation fails, the error is caught and the
  caller receives exactly this snapshot: \<open>stats\<close> with \<open>totalStudents\<close>,
  \<open>uniqueSkills\<close>, \<open>averageMatch\<close> and \<open>totalDepartments\<close> all 0, empty \<open>alerts\<close>,
  \<open>topMissingSkills\<close>, \<open>departmentStats\<close>, \<open>trends\<close> and \<open>recentActivity\<close>, and an
  all-zero \<open>matchDistribution\<close>; no other field is present.
\<close>

theorem analytics_failure:
  assumes "analytics_try round_double flt now d q = Inl e"
  shows "analytics round_double flt now d q =
     JObj [(''stats'', JObj [(''totalStudents'', JNum 0), (''uniqueSkills'', JNum 0),
                             (''averageMatch'', JNum 0), (''totalDepartments'', JNum 0)]),
           (''alerts'', JArr []),
           (''topMissingSkills'', JArr []),
           (''departmentStats'', JArr []),
           (''matchDistribution'', JObj [(''high'', JNum 0), (''medium'', JNum 0), (''low'', JNum 0), (''veryLow'', JNum 0)]),
           (''trends'', JArr []),
           (''recentActivity'', JArr [])]"
  using assms by (simp add: analytics_def getMockAnalytics_def object_def)

theorem analytics_failure_witness:
  "analytics nearest_percent read_fails jun_12_2024 example_db no_filter =
     JObj [(''stats'', JObj [(''totalStudents'', JNum 0), (''uniqueSkills'', JNum 0),
                             (''averageMatch'', JNum 0), (''totalDepartments'', JNum 0)]),
           (''alerts'', JArr []),
           (''topMissingSkills'', JArr []),
           (''departmentStats'', JArr []),
           (''matchDistribution'', JObj [(''high'', JNum 0), (''medium'', JNum 0), (''low'', JNum 0), (''veryLow'', JNum 0)]),
           (''trends'', JArr []),
           (''recentActivity'', JArr [])]
   \<and> analytics nearest_percent no_faults jun_12_2024 corrupt_db no_filter =
     JObj [(''stats'', JObj [(''totalStudents'', JNum 0), (''uniqueSkills'', JNum 0),
                             (''averageMatch'', JNum 0), (''totalDepartments'', JNum 0)]),
           (''alerts'', JArr []),
           (''topMissingSkills'', JArr []),
           (''departmentStats'', JArr []),
           (''matchDistribution'', JObj [(''high'', JNum 0), (''medium'', JNum 0), (''low'', JNum 0), (''veryLow'', JNum 0)]),
           (''trends'', JArr []),
           (''recentActivity'', JArr [])]"
proof -
  have 1: "analytics_try nearest_percent read_fails jun_12_2024 example_db no_filter = Inl SqliteError"
    by (simp add: analytics_try_def read_fails_def)
  have 2: "analytics_try nearest_percent no_faults jun_12_2024 corrupt_db no_filter = Inl TypeError"
    by code_simp
  from analytics_failure [OF 1] analytics_failure [OF 2] show ?thesis by (rule conjI)
qed

text \<open>
  C8. Every score under the filter is counted in exactly one band: adding one score
  raises one count by one, \<open>high\<close> from 80 up, \<open>medium\<close> from 60 to 79, \<open>low\<close> from 40 to
  59, \<open>veryLow\<close> below 40; the four counts add up to the number of records under the
  filter, and they are the \<open>matchDistribution\<close> of the snapshot.
\<close>

theorem distribution_bands:
  "high (distribution (matchDist d q)) + medium (distribution (matchDist d q))
     + low (distribution (matchDist d q)) + veryLow (distribution (matchDist d q))
     = length (filter (whereClause q) (skill_gaps d))
   \<and> distribution (p # ps) =
       (if 80 \<le> p then (distribution ps)\<lparr>high := high (distribution ps) + 1\<rparr>
        else if 60 \<le> p then (distribution ps)\<lparr>medium := medium (distribution ps) + 1\<rparr>
        else if 40 \<le> p then (distribution ps)\<lparr>low := low (distribution ps) + 1\<rparr>
        else (distribution ps)\<lparr>veryLow := veryLow (distribution ps) + 1\<rparr>)
   \<and> (analytics_try round_double flt now d q = Inr s \<longrightarrow>
        field s ''matchDistribution'' = Some (distribution_json (distribution (matchDist d q))))"
proof -
  have total: "length (filter (\<lambda>p. p \<ge> 80) xs) + length (filter (\<lambda>p. p \<ge> 60 \<and> p < 80) xs)
      + length (filter (\<lambda>p. p \<ge> 40 \<and> p < 60) xs) + length (filter (\<lambda>p. p < 40) xs) = length xs"
    for xs :: "int list"
    by (induction xs) auto
  have "high (distribution (matchDist d q)) + medium (distribution (matchDist d q))
     + low (distribution (matchDist d q)) + veryLow (distribution (matchDist d q))
     = length (matchDist d q)"
    by (simp add: distribution_def total)
  then have 1: "high (distribution (matchDist d q)) + medium (distribution (matchDist d q))
     + low (distribution (matchDist d q)) + veryLow (distribution (matchDist d q))
     = length (filter (whereClause q) (skill_gaps d))"
    by (simp add: matchDist_def)
  have 2: "distribution (p # ps) =
       (if 80 \<le> p then (distribution ps)\<lparr>high := high (distribution ps) + 1\<rparr>
        else if 60 \<le> p then (distribution ps)\<lparr>medium := medium (distribution ps) + 1\<rparr>
        else if 40 \<le> p then (distribution ps)\<lparr>low := low (distribution ps) + 1\<rparr>
        else (distribution ps)\<lparr>veryLow := veryLow (distribution ps) + 1\<rparr>)"
    by (simp add: distribution_def)
  have 3: "field s ''matchDistribution'' = Some (distribution_json (distribution (matchDist d q)))"
    if "analytics_try round_double flt now d q = Inr s"
    by (rule analytics_try_success [OF that])
  from 1 2 3 show ?thesis by blast
qed

theorem distribution_bands_witness:
  "distribution [80, 79, 60, 59, 40, 39] = \<lparr>high = 1, medium = 2, low = 2, veryLow = 1\<rparr>
   \<and> distribution [100, 0] = \<lparr>high = 1, medium = 0, low = 0, veryLow = 1\<rparr>
   \<and> field (analytics nearest_percent no_faults jun_12_2024 example_db cs_filter) ''matchDistribution''
       = Some (JObj [(''high'', JNum 1), (''medium'', JNum 0), (''low'', JNum 1), (''veryLow'', JNum 0)])"
proof -
  have e: "distribution [] = \<lparr>high = 0, medium = 0, low = 0, veryLow = 0\<rparr>"
    by (simp add: distribution_def)
  note step = distribution_bands [THEN conjunct2, THEN conjunct1]
  have a: "distribution [80, 79, 60, 59, 40, 39] = \<lparr>high = 1, medium = 2, low = 2, veryLow = 1\<rparr>"
    by (simp add: step e)
  have b: "distribution [100, 0] = \<lparr>high = 1, medium = 0, low = 0, veryLow = 1\<rparr>"
    by (simp add: step e)
  have h: "analytics_try nearest_percent no_faults jun_12_2024 example_db cs_filter
      = Inr (analytics nearest_percent no_faults jun_12_2024 example_db cs_filter)"
    by code_simp
  have v: "distribution_json (distribution (matchDist example_db cs_filter))
      = JObj [(''high'', JNum 1), (''medium'', JNum 0), (''low'', JNum 1), (''veryLow'', JNum 0)]"
    by code_simp
  from distribution_bands [THEN conjunct2, THEN conjunct2, rule_format, OF h]
  have c: "field (analytics nearest_percent no_faults jun_12_2024 example_db cs_filter) ''matchDistribution''
       = Some (distribution_json (distribution (matchDist example_db cs_filter)))" .
  from a b c v show ?thesis by simp
qed

text \<open>
  C9. The claim: two calls with the same filter and no write in between return identical
  snapshots. The snapshot also depends on the day of the call: the trending skills are
  those of the current year from three weeks before the current week on. Counterexample:
  the same store and filter, asked on 2024-06-12 (week 24) and on 2024-07-24 (week 30).
\<close>

theorem analytics_idempotent_counterexample:
  "analytics nearest_percent no_faults jun_12_2024 example_db no_filter
     \<noteq> analytics nearest_percent no_faults jul_24_2024 example_db no_filter"
proof -
  have "field (analytics nearest_percent no_faults jun_12_2024 example_db no_filter) ''trendingSkills''
      \<noteq> field (analytics nearest_percent no_faults jul_24_2024 example_db no_filter) ''trendingSkills''"
    by code_simp
  then show ?thesis by metis
qed

text \<open>
  C9, amended: two calls with the same filter, on the same store (no write in between,
  and the store failing in both or in neither), made in the same calendar year and with
  the same first week of the trend window, \<open>max 1 (week - 3)\<close>, return identical
  snapshots.
\<close>

theorem analytics_idempotent:
  assumes "getFullYear now1 = getFullYear now2"
      and "max 1 (getWeekNumber now1 - 3) = max 1 (getWeekNumber now2 - 3)"
  shows "analytics round_double flt now1 d q = analytics round_double flt now2 d q"
proof -
  have "trendingSkills d now1 = trendingSkills d now2"
    by (simp only: trendingSkills_def Let_def assms)
  then have "analytics_try round_double flt now1 d q = analytics_try round_double flt now2 d q"
    by (simp add: analytics_try_def Let_def)
  then show ?thesis
    by (simp add: analytics_def)
qed

theorem analytics_idempotent_witness:
  "analytics nearest_percent no_faults jun_12_2024 example_db cs_filter
     = analytics nearest_percent no_faults jun_14_2024 example_db cs_filter"
proof (rule analytics_idempotent)
  show "getFullYear jun_12_2024 = getFullYear jun_14_2024"
    by (simp add: jun_12_2024_def jun_14_2024_def)
  show "max 1 (getWeekNumber jun_12_2024 - 3) = max 1 (getWeekNumber jun_14_2024 - 3)"
    by code_simp
qed

text \<open>
  C10. Every entry of the \<open>trendingSkills\<close> list that the caller receives has the
  \<open>trend\<close> \<open>''increasing''\<close>, whatever the weekly counts are; a successful call returns
  one entry per row of the trend query.
\<close>

theorem trend_is_constant:
  "(\<forall>t\<in>set (case field (analytics round_double flt now d q) ''trendingSkills'' of
               None \<Rightarrow> [] | Some ts \<Rightarrow> elements ts).
      field t ''trend'' = Some (JStr ''increasing''))
   \<and> (analytics_try round_double flt now d q = Inr s \<longrightarrow>
        (\<exists>ts. field s ''trendingSkills'' = Some (JArr ts) \<and> length ts = length (trendingSkills d now)))"
proof -
  have 1: "\<forall>t\<in>set (case field (analytics round_double flt now d q) ''trendingSkills'' of
               None \<Rightarrow> [] | Some ts \<Rightarrow> elements ts).
      field t ''trend'' = Some (JStr ''increasing'')"
  proof (cases "analytics_try round_double flt now d q")
    case (Inl e)
    then show ?thesis
      by (simp add: analytics_def getMockAnalytics_def)
  next
    case (Inr s)
    then have "analytics round_double flt now d q = s"
      by (simp add: analytics_def)
    moreover have "field s ''trendingSkills'' = Some (JArr (map (\<lambda>t. object
                       [(''skill'', map_option json_of_sql (property t ''skill_name'')),
                        (''total'', map_option json_of_sql (property t ''total'')),
                        (''trend'', Some (JStr ''increasing''))]) (trendingSkills d now)))"
      by (rule analytics_try_success [OF Inr])
    ultimately show ?thesis
      by (auto simp: defined_props_Cons split: option.splits)
  qed
  have 2: "\<exists>ts. field s ''trendingSkills'' = Some (JArr ts) \<and> length ts = length (trendingSkills d now)"
    if "analytics_try round_double flt now d q = Inr s"
    by (rule analytics_try_success [OF that]) simp
  from 1 2 show ?thesis by blast
qed

theorem trend_is_constant_witness:
  "field (analytics nearest_percent no_faults jun_12_2024 example_db no_filter) ''trendingSkills''
     = Some (JArr [JObj [(''skill'', JStr ''SQL''), (''total'', JNum 6), (''trend'', JStr ''increasing'')],
                   JObj [(''skill'', JStr ''Go''), (''total'', JNum 2), (''trend'', JStr ''increasing'')]])
   \<and> field (JObj [(''skill'', JStr ''SQL''), (''total'', JNum 6), (''trend'', JStr ''increasing'')]) ''trend''
       = Some (JStr ''increasing'')"
proof -
  have v: "field (analytics nearest_percent no_faults jun_12_2024 example_db no_filter) ''trendingSkills''
     = Some (JArr [JObj [(''skill'', JStr ''SQL''), (''total'', JNum 6), (''trend'', JStr ''increasing'')],
                   JObj [(''skill'', JStr ''Go''), (''total'', JNum 2), (''trend'', JStr ''increasing'')]])"
    by code_simp
  from trend_is_constant [THEN conjunct1, of nearest_percent no_faults jun_12_2024 example_db no_filter]
  have "field (JObj [(''skill'', JStr ''SQL''), (''total'', JNum 6), (''trend'', JStr ''increasing'')]) ''trend''
       = Some (JStr ''increasing'')"
    unfolding v by simp
  with v show ?thesis by simp
qed

section \<open>The alert generator: the two thresholds\<close>



text \<open>
  C7. The claim: a critical alert naming the most-missing skill is emitted exactly when
  that skill's count exceeds 5. The threshold is as claimed, the name is not there: the
  rows of the counter query carry the skill under \<open>skill_name\<close>, the alert reads
  \<open>skill\<close>, and the title is \<open>High Demand: undefined\<close> for every row the query can
  return. On the example store the top skill is SQL with count 6.
\<close>

theorem critical_alert_title:
  "critical_alert ([(''skill_name'', SqlText skill), (''count'', SqlInt n)] # others) =
     (if n > 5
      then [JObj [(''severity'', JStr ''critical''),
                  (''title'', JStr ''High Demand: undefined''),
                  (''description'', JStr (show_int n @ '' students missing this critical skill. Consider emergency workshop.'')),
                  (''count'', JNum n),
                  (''action'', JStr ''Schedule Workshop'')]]
      else [])
   \<and> topSkillsFromAnalytics example_db
       = [[(''skill_name'', SqlText ''SQL''), (''count'', SqlInt 6)], [(''skill_name'', SqlText ''Go''), (''count'', SqlInt 2)]]
   \<and> critical_alert (topSkillsFromAnalytics example_db)
       = [JObj [(''severity'', JStr ''critical''),
                (''title'', JStr ''High Demand: undefined''),
                (''description'', JStr ''6 students missing this critical skill. Consider emergency workshop.''),
                (''count'', JNum 6),
                (''action'', JStr ''Schedule Workshop'')]]
   \<and> critical_alert (topSkillsFromAnalytics (example_db\<lparr>skill_analytics := [((''SQL'', ''CS''), 5)]\<rparr>)) = []"
proof (intro conjI)
  show "critical_alert ([(''skill_name'', SqlText skill), (''count'', SqlInt n)] # others) =
     (if n > 5
      then [JObj [(''severity'', JStr ''critical''),
                  (''title'', JStr ''High Demand: undefined''),
                  (''description'', JStr (show_int n @ '' students missing this critical skill. Consider emergency workshop.'')),
                  (''count'', JNum n),
                  (''action'', JStr ''Schedule Workshop'')]]
      else [])"
    by (simp add: critical_alert_def property_def object_def)
  show "topSkillsFromAnalytics example_db
       = [[(''skill_name'', SqlText ''SQL''), (''count'', SqlInt 6)], [(''skill_name'', SqlText ''Go''), (''count'', SqlInt 2)]]"
    by code_simp
  show "critical_alert (topSkillsFromAnalytics example_db)
       = [JObj [(''severity'', JStr ''critical''),
                (''title'', JStr ''High Demand: undefined''),
                (''description'', JStr ''6 students missing this critical skill. Consider emergency workshop.''),
                (''count'', JNum 6),
                (''action'', JStr ''Schedule Workshop'')]]"
    by code_simp
  show "critical_alert (topSkillsFromAnalytics (example_db\<lparr>skill_analytics := [((''SQL'', ''CS''), 5)]\<rparr>)) = []"
    by code_simp
qed

end
